theory Spec2Isabelle
  imports Main
begin

section \<open>Data model\<close>

text \<open>
  Packets travel as JSON documents.  An object is the association list of its own
  properties in the order \<^verbatim>\<open>JSON.stringify\<close> and \<^verbatim>\<open>Object.entries\<close> visit them; a key occurs
  once.  Numbers in JSON documents are integers here, and negative zero, which
  \<^verbatim>\<open>JSON.parse\<close> reads from \<^verbatim>\<open>-0\<close>.
\<close>

datatype json =
    JNull
  | JBool bool
  | JNum int
  | JNegZero
  | JStr string
  | JArr "json list"
  | JObj "(string \<times> json) list"

text \<open>A tag set maps a category name to its list of tags.\<close>

type_synonym TagSet = "(string \<times> string list) list"

record HashCashToken =
  token :: string
  counter :: nat

record Meta =
  type :: string
  messageId :: string
  timestamp :: nat
  hashcashToken :: HashCashToken
  encrypted :: bool
  signed :: bool
  signatureVerified :: "bool option"
  decrypted :: "bool option"
  tags :: "TagSet option"

record Verification =
  messageHash :: string
  signature :: "string option"

record Packet =
  meta :: Meta
  sender :: string
  recipient :: string
  content :: json
  verification :: Verification

text \<open>
  What the program calls in the Node.js runtime and in the OpenPGP library is not part of
  the repository; the model takes it as a parameter.  Key material (the key files and the
  key cache) is read through these functions and is fixed during the operations below.

  \<^item> \<open>sha256hex data\<close> is \<^verbatim>\<open>crypto.createHash('sha256').update(data).digest('hex')\<close>;
  \<^item> \<open>printNumber n\<close> is the text a template literal gives an integer above \<open>2^53\<close>
    (such as \<^verbatim>\<open>1e+21\<close>);
  \<^item> \<open>stringify v\<close> is \<^verbatim>\<open>JSON.stringify(v)\<close>;
  \<^item> \<open>signDetached from text\<close> is the signing block of \<^verbatim>\<open>createMessagePacket\<close>:
    no private key file, a signature, or an exception;
  \<^item> \<open>encryptFor to text\<close> is the encryption block: the armored ciphertext, or \<open>None\<close>
    when the recipient has no public key or the attempt throws (the exception is caught);
  \<^item> \<open>decryptFor email c\<close> is the decryption block of \<^verbatim>\<open>processPacket\<close>: the parsed
    plaintext, or \<open>None\<close> when there is no private key or the attempt throws;
  \<^item> \<open>verifyDetached from text sig\<close> is the verification block: \<open>None\<close> when the sender
    has no public key, \<open>Some True\<close> when the signature verifies, \<open>Some False\<close> when the
    attempt throws;
  \<^item> \<open>readKey address armored\<close> is \<^verbatim>\<open>openpgp.readKey\<close> followed by writing the key file
    in \<^verbatim>\<open>importPublicKey\<close>: \<open>None\<close> when both succeed, the message of the exception
    otherwise.
\<close>

datatype SignOutcome = NoPrivateKey | Signed string | SignThrows string

record Runtime =
  sha256hex :: "string \<Rightarrow> string"
  printNumber :: "nat \<Rightarrow> string"
  stringify :: "json \<Rightarrow> string"
  signDetached :: "string \<Rightarrow> string \<Rightarrow> SignOutcome"
  encryptFor :: "string \<Rightarrow> string \<Rightarrow> string option"
  decryptFor :: "string \<Rightarrow> json \<Rightarrow> json option"
  verifyDetached :: "string \<Rightarrow> string \<Rightarrow> string \<Rightarrow> bool option"
  readKey :: "string option \<Rightarrow> string \<Rightarrow> string option"

text \<open>The protocol object: the fields of \<^verbatim>\<open>MMTPProtocol\<close> that the operations read.\<close>

record Protocol =
  difficulty :: nat
  usePGP :: bool
  tagCategories :: TagSet

definition defaultTagCategories :: TagSet where
  "defaultTagCategories =
     [(''priority'', [''high'', ''medium'', ''low'']),
      (''category'', [''personal'', ''work'', ''finance'', ''social'', ''promotion'',
                      ''coupon'', ''shop'', ''notification'']),
      (''status'', [''urgent'', ''important'', ''information'', ''action_required'']),
      (''custom'', [])]"

section \<open>Strings\<close>

text \<open>
  \<^verbatim>\<open>s.startsWith(p)\<close> and \<^verbatim>\<open>'0'.repeat(n)\<close>.  The engine limits the length of a string
  (to about \<open>2^29\<close> characters) and \<^verbatim>\<open>repeat\<close> throws beyond that limit; lists have no such
  limit, and the model does not follow the program to difficulties of that size.
\<close>

definition startsWith :: "string \<Rightarrow> string \<Rightarrow> bool" where
  "startsWith s p = (take (length p) s = p)"

definition zeros :: "nat \<Rightarrow> string" where
  "zeros n = replicate n (CHR ''0'')"

text \<open>The number of leading \<^verbatim>\<open>'0'\<close> characters of a digest.\<close>

definition leadingZeros :: "string \<Rightarrow> nat" where
  "leadingZeros s = length (takeWhile (\<lambda>c. c = CHR ''0'') s)"

text \<open>
  Counters, timestamps and the difficulty are non-negative integers (\<^verbatim>\<open>Date.now()\<close>, a
  counter incremented from 0); they are naturals here.  A JavaScript number is a double:
  it holds every integer up to \<open>2^53\<close>, and a template literal prints those in decimal.
\<close>

definition digitChar :: "nat \<Rightarrow> char" where
  "digitChar d = ''0123456789'' ! d"

fun decimal :: "nat \<Rightarrow> string" where
  "decimal n = (if n < 10 then [digitChar n] else decimal (n div 10) @ [digitChar (n mod 10)])"

text \<open>\<open>2^53\<close>, the last integer up to which a double counts exactly.\<close>

definition maxExact :: nat where
  "maxExact = 9007199254740992"

text \<open>A number in a template literal: in decimal up to \<open>2^53\<close>, as the runtime prints it
  above.\<close>

definition numberToString :: "Runtime \<Rightarrow> nat \<Rightarrow> string" where
  "numberToString rt n = (if n \<le> maxExact then decimal n else printNumber rt n)"

text \<open>
  \<^verbatim>\<open>counter++\<close> on a double: exact below \<open>2^53\<close>; at \<open>2^53\<close> the sum rounds back to
  \<open>2^53\<close>.  A counter that starts at 0 never gets past \<open>2^53\<close>.
\<close>

definition increment :: "nat \<Rightarrow> nat" where
  "increment n = (if n < maxExact then n + 1 else n)"

section \<open>Address validation\<close>

text \<open>The regular expression \<^verbatim>\<open>/^\([a-zA-Z0-9._-]+\)%\([a-zA-Z0-9.-]+\)$/\<close>.\<close>

definition alnum :: "char \<Rightarrow> bool" where
  "alnum c =
     (let n = (of_char c :: nat)
      in (97 \<le> n \<and> n \<le> 122) \<or> (65 \<le> n \<and> n \<le> 90) \<or> (48 \<le> n \<and> n \<le> 57))"

definition localChar :: "char \<Rightarrow> bool" where
  "localChar c = (alnum c \<or> c = CHR ''.'' \<or> c = CHR ''_'' \<or> c = CHR ''-'')"

definition domainChar :: "char \<Rightarrow> bool" where
  "domainChar c = (alnum c \<or> c = CHR ''.'' \<or> c = CHR ''-'')"

definition validateEmailFormat :: "string \<Rightarrow> bool" where
  "validateEmailFormat email =
     (case email of
        [] \<Rightarrow> False
      | c # rest \<Rightarrow>
          c = CHR ''('' \<and>
          (let name = takeWhile localChar rest; rest1 = dropWhile localChar rest
           in name \<noteq> [] \<and> startsWith rest1 '')%('' \<and>
              (let rest2 = drop 3 rest1;
                   dom = takeWhile domainChar rest2; rest3 = dropWhile domainChar rest2
               in dom \<noteq> [] \<and> rest3 = '')'')))"

section \<open>Integrity and proof of work\<close>

definition generateSHA256 :: "Runtime \<Rightarrow> string \<Rightarrow> string" where
  "generateSHA256 rt data = sha256hex rt data"

definition verifyMessageIntegrity :: "Runtime \<Rightarrow> Packet \<Rightarrow> bool" where
  "verifyMessageIntegrity rt packet =
     (if encrypted (meta packet) then True
      else (let calculatedHash = generateSHA256 rt (stringify rt (content packet))
            in calculatedHash = messageHash (verification packet)))"

text \<open>
  The search loop of \<^verbatim>\<open>generateHashCash\<close>.  It has no bound, so the model is a partial
  function: \<open>None\<close> is the loop that never returns.  The version is the number 1.
\<close>

partial_function (option) hashCashLoop ::
  "Runtime \<Rightarrow> Protocol \<Rightarrow> nat \<Rightarrow> string \<Rightarrow> nat \<Rightarrow> HashCashToken option" where
  "hashCashLoop rt this ts resource n =
     (let tok = numberToString rt 1 @ '':'' @ numberToString rt (difficulty this) @ '':''
                @ numberToString rt ts @ '':'' @ resource @ ''::'' @ numberToString rt n @ '':'';
          hash = generateSHA256 rt tok
      in if startsWith hash (zeros (difficulty this))
         then Some \<lparr>token = tok, counter = n\<rparr>
         else hashCashLoop rt this ts resource (increment n))"

definition generateHashCash ::
  "Runtime \<Rightarrow> Protocol \<Rightarrow> string \<Rightarrow> string \<Rightarrow> nat \<Rightarrow> HashCashToken option" where
  "generateHashCash rt this from to ts =
     (let resource = from @ '':'' @ to @ '':'' @ numberToString rt ts
      in hashCashLoop rt this ts resource 0)"

definition verifyHashCash :: "Runtime \<Rightarrow> Protocol \<Rightarrow> Packet \<Rightarrow> bool" where
  "verifyHashCash rt this packet =
     (let hash = generateSHA256 rt (token (hashcashToken (meta packet)))
      in startsWith hash (zeros (difficulty this)))"

section \<open>Objects used as dictionaries\<close>

text \<open>
  The program keeps its tables (tag sets, tag counts, the mailboxes) in plain objects and
  reads them with \<^verbatim>\<open>table[key]\<close>.  Such a read finds the object's own property, and
  otherwise what every object inherits from \<^verbatim>\<open>Object.prototype\<close>.  These are the inherited
  names in Node.js.  All but \<^verbatim>\<open>__proto__\<close> are functions, and \<open>inheritedLength\<close> is the
  \<^verbatim>\<open>length\<close> of the function; \<^verbatim>\<open>__proto__\<close> reads as \<^verbatim>\<open>Object.prototype\<close> itself, which has no
  \<^verbatim>\<open>length\<close>.  The model takes the built-in objects as the runtime creates them.
\<close>

definition inheritedNames :: "string list" where
  "inheritedNames =
     [''constructor'', ''__defineGetter__'', ''__defineSetter__'', ''hasOwnProperty'',
      ''__lookupGetter__'', ''__lookupSetter__'', ''isPrototypeOf'', ''propertyIsEnumerable'',
      ''toString'', ''valueOf'', ''__proto__'', ''toLocaleString'']"

definition inheritedLength :: "string \<Rightarrow> nat option" where
  "inheritedLength name =
     (if name \<in> set [''toString'', ''valueOf'', ''toLocaleString''] then Some 0
      else if name \<in> set [''constructor'', ''hasOwnProperty'', ''__lookupGetter__'',
                            ''__lookupSetter__'', ''isPrototypeOf'', ''propertyIsEnumerable'']
      then Some 1
      else if name \<in> set [''__defineGetter__'', ''__defineSetter__''] then Some 2
      else None)"

text \<open>
  The own properties of an object are visited with the array indices first, in ascending
  order, and the other keys after them in the order they were created.  An array index is
  the decimal form of an integer up to \<open>2^32 - 2\<close>.
\<close>

definition isDigit :: "char \<Rightarrow> bool" where
  "isDigit c = (let n = (of_char c :: nat) in 48 \<le> n \<and> n \<le> 57)"

definition digitsValue :: "string \<Rightarrow> nat" where
  "digitsValue s = foldl (\<lambda>acc c. 10 * acc + (of_char c - 48)) 0 s"

definition isArrayIndex :: "string \<Rightarrow> bool" where
  "isArrayIndex s =
     (s \<noteq> [] \<and> list_all isDigit s \<and> (s = ''0'' \<or> take 1 s \<noteq> ''0'')
      \<and> digitsValue s \<le> 4294967294)"

fun replaceValue :: "(string \<times> 'v) list \<Rightarrow> string \<Rightarrow> 'v \<Rightarrow> (string \<times> 'v) list" where
  "replaceValue [] k v = []"
| "replaceValue ((k', v') # kvs) k v =
     (if k' = k then (k, v) # kvs else (k', v') # replaceValue kvs k v)"

fun insertIndex :: "(string \<times> 'v) list \<Rightarrow> string \<Rightarrow> 'v \<Rightarrow> (string \<times> 'v) list" where
  "insertIndex [] k v = [(k, v)]"
| "insertIndex ((k', v') # kvs) k v =
     (if isArrayIndex k' \<and> digitsValue k' < digitsValue k then (k', v') # insertIndex kvs k v
      else (k, v) # (k', v') # kvs)"

text \<open>
  \<^verbatim>\<open>object[k] = v\<close> on an object of the program's own, for a key that is an own property
  or that no setter intercepts.
\<close>

definition setProperty :: "(string \<times> 'v) list \<Rightarrow> string \<Rightarrow> 'v \<Rightarrow> (string \<times> 'v) list" where
  "setProperty kvs k v =
     (if map_of kvs k \<noteq> None then replaceValue kvs k v
      else if isArrayIndex k then insertIndex kvs k v
      else kvs @ [(k, v)])"

section \<open>Tags\<close>

text \<open>The \<^verbatim>\<open>tags\<close> option of a caller is an array of tags or an object of categories.\<close>

datatype TagsInput = TagArray "string list" | TagObject TagSet

text \<open>
  The loop of \<^verbatim>\<open>processTags\<close>.  \<^verbatim>\<open>this.tagCategories[category]\<close> is defined for the
  categories of the table and for the inherited names; only the table's own lists filter.
  Assigning to \<^verbatim>\<open>__proto__\<close> runs the inherited setter and creates no property.
\<close>

fun processTagEntries :: "Protocol \<Rightarrow> TagSet \<Rightarrow> TagSet \<Rightarrow> TagSet" where
  "processTagEntries this processedTags [] = processedTags"
| "processTagEntries this processedTags ((category, tagList) # entries) =
     (if map_of (tagCategories this) category \<noteq> None \<or> category \<in> set inheritedNames
         \<or> category = ''custom''
      then (case (if category \<noteq> ''custom'' then map_of (tagCategories this) category else None) of
              Some known \<Rightarrow>
                processTagEntries this
                  (setProperty processedTags category (filter (\<lambda>tag. tag \<in> set known) tagList))
                  entries
            | None \<Rightarrow>
                if category = ''__proto__'' then processTagEntries this processedTags entries
                else processTagEntries this (setProperty processedTags category tagList) entries)
      else processTagEntries this processedTags entries)"

fun processTags :: "Protocol \<Rightarrow> TagsInput option \<Rightarrow> TagSet" where
  "processTags this None = []"
| "processTags this (Some (TagArray ts)) = (if ts = [] then [] else [(''custom'', ts)])"
| "processTags this (Some (TagObject obj)) =
     (if obj = [] then [] else processTagEntries this [] obj)"

text \<open>
  The body of the loop over the filter's entries, for one message's tags.  The result is
  \<open>Inr\<close> of what the callback returns, or \<open>Inl\<close> of the message of the \<^verbatim>\<open>TypeError\<close> it
  throws: \<^verbatim>\<open>message.meta.tags[category]\<close> may be an inherited value, which has no
  \<^verbatim>\<open>includes\<close>.
\<close>

fun matchesFilters :: "TagSet \<Rightarrow> TagSet \<Rightarrow> string + bool" where
  "matchesFilters mtags [] = Inr True"
| "matchesFilters mtags ((category, filterTags) # entries) =
     (case map_of mtags category of
        Some messageTags \<Rightarrow>
          if length filterTags > 0 \<and> length messageTags = 0 then Inr False
          else (let hasMatchingTag = list_ex (\<lambda>tag. tag \<in> set messageTags) filterTags
                in if \<not> hasMatchingTag then Inr False else matchesFilters mtags entries)
      | None \<Rightarrow>
          if category \<in> set inheritedNames
          then (if length filterTags > 0 \<and> inheritedLength category = Some 0 then Inr False
                else if filterTags = [] then Inr False
                else Inl ''messageTags.includes is not a function'')
          else (let messageTags = ([] :: string list)
                in if length filterTags > 0 \<and> length messageTags = 0 then Inr False
                   else (let hasMatchingTag = list_ex (\<lambda>tag. tag \<in> set messageTags) filterTags
                         in if \<not> hasMatchingTag then Inr False
                            else matchesFilters mtags entries)))"

text \<open>\<^verbatim>\<open>messages.filter(...)\<close> with that callback: the first exception ends it.\<close>

fun filterMessages :: "TagSet \<Rightarrow> Packet list \<Rightarrow> string + Packet list" where
  "filterMessages filters [] = Inr []"
| "filterMessages filters (m # rest) =
     (case (case tags (meta m) of
              None \<Rightarrow> Inr False
            | Some mtags \<Rightarrow> if mtags = [] then Inr False else matchesFilters mtags filters) of
        Inl err \<Rightarrow> Inl err
      | Inr keep \<Rightarrow>
          (case filterMessages filters rest of
             Inl err \<Rightarrow> Inl err
           | Inr kept \<Rightarrow> Inr (if keep then m # kept else kept)))"

definition filterMessagesByTags :: "Packet list \<Rightarrow> TagSet option \<Rightarrow> string + Packet list" where
  "filterMessagesByTags messages tagFilters =
     (case tagFilters of
        None \<Rightarrow> Inr messages
      | Some filters \<Rightarrow> if filters = [] then Inr messages else filterMessages filters messages)"

section \<open>Building and processing packets\<close>

record Options =
  tagInput :: "TagsInput option"
  sign :: bool
  encrypt :: bool

text \<open>
  \<^verbatim>\<open>createMessagePacket\<close>.  The clock (\<^verbatim>\<open>Date.now()\<close>) and the random message id are
  inputs.  The result is \<open>None\<close> when the proof-of-work search never returns, \<open>Some (Inl e)\<close>
  when the function throws \<open>e\<close>, and \<open>Some (Inr packet)\<close> otherwise.
\<close>

definition createMessagePacket ::
  "Runtime \<Rightarrow> Protocol \<Rightarrow> string \<Rightarrow> string \<Rightarrow> string \<Rightarrow> string \<Rightarrow> string \<Rightarrow> Options
     \<Rightarrow> nat \<Rightarrow> string \<Rightarrow> (string + Packet) option" where
  "createMessagePacket rt this from to subject body ty options now randomId =
     (if \<not> validateEmailFormat from \<or> \<not> validateEmailFormat to
      then Some (Inl ''Invalid email format. Must be (name)%(domain)'')
      else
        (let messageContent = JObj [(''subject'', JStr subject), (''body'', JStr body)];
             hashOfMessage = generateSHA256 rt (stringify rt messageContent)
         in case generateHashCash rt this from to now of
              None \<Rightarrow> None
            | Some hashcash \<Rightarrow>
               (let tagSet = processTags this
                      (case tagInput options of None \<Rightarrow> Some (TagArray []) | Some t \<Rightarrow> Some t);
                    packet = \<lparr>meta = \<lparr>type = ty, messageId = randomId, timestamp = now,
                                      hashcashToken = hashcash, encrypted = False,
                                      signed = False, signatureVerified = None,
                                      decrypted = None, tags = Some tagSet\<rparr>,
                              sender = from, recipient = to, content = messageContent,
                              verification = \<lparr>messageHash = hashOfMessage, signature = None\<rparr>\<rparr>;
                    afterSign =
                      (if sign options \<and> usePGP this
                       then (case signDetached rt from (stringify rt messageContent) of
                               NoPrivateKey \<Rightarrow> Inr packet
                             | Signed sg \<Rightarrow>
                                 Inr (packet\<lparr>verification := (verification packet)\<lparr>signature := Some sg\<rparr>,
                                             meta := (meta packet)\<lparr>signed := True\<rparr>\<rparr>)
                             | SignThrows e \<Rightarrow> Inl e)
                       else Inr packet)
                in case afterSign of
                     Inl e \<Rightarrow> Some (Inl e)
                   | Inr signedPacket \<Rightarrow>
                       if encrypt options \<and> usePGP this
                       then (case encryptFor rt to (stringify rt messageContent) of
                               Some armored \<Rightarrow>
                                 Some (Inr (signedPacket\<lparr>content := JObj [(''encrypted'', JStr armored)],
                                             meta := (meta signedPacket)\<lparr>encrypted := True\<rparr>\<rparr>))
                             | None \<Rightarrow> Some (Inr signedPacket))
                       else Some (Inr signedPacket))))"

text \<open>The result object of \<^verbatim>\<open>processPacket\<close>: \<^verbatim>\<open>{success: false, error}\<close> or
  \<^verbatim>\<open>{success: true, packet}\<close>.\<close>

datatype ProcessResult = Failure string | Success Packet

definition processPacket ::
  "Runtime \<Rightarrow> Protocol \<Rightarrow> Packet \<Rightarrow> string option \<Rightarrow> ProcessResult" where
  "processPacket rt this packet recipientEmail =
     (if \<not> verifyMessageIntegrity rt packet then Failure ''Message integrity check failed''
      else if \<not> verifyHashCash rt this packet
      then Failure ''HashCash verification failed - potential spam''
      else
        (let opened =
               (case recipientEmail of
                  None \<Rightarrow> packet
                | Some addr \<Rightarrow>
                    if encrypted (meta packet) \<and> usePGP this \<and> addr \<noteq> []
                    then (case decryptFor rt addr (content packet) of
                            Some plain \<Rightarrow>
                              packet\<lparr>content := plain,
                                     meta := (meta packet)\<lparr>decrypted := Some True\<rparr>\<rparr>
                          | None \<Rightarrow> packet)
                    else packet);
             checked =
               (case signature (verification opened) of
                  None \<Rightarrow> opened
                | Some sg \<Rightarrow>
                    if signed (meta opened) \<and> sg \<noteq> [] \<and> usePGP this
                    then (case verifyDetached rt (sender opened) (stringify rt (content opened)) sg of
                            None \<Rightarrow> opened
                          | Some ok \<Rightarrow>
                              opened\<lparr>meta := (meta opened)\<lparr>signatureVerified := Some ok\<rparr>\<rparr>)
                    else opened)
         in Success checked))"

section \<open>Server: the mailbox store\<close>

text \<open>
  The fields of \<^verbatim>\<open>MMTPServer\<close> that the handlers read and write.  A handler takes the
  server and the request data and returns the server afterwards together with the frame
  written to the socket.  When a handler throws, the connection's data handler catches the
  exception and writes the frame \<^verbatim>\<open>Invalid request format. Must be valid JSON.\<close>
\<close>

record Server =
  srvProtocol :: Protocol
  srvUsePGP :: bool
  mailboxes :: "string \<rightharpoonup> Packet list"

type_synonym TagCounts = "(string \<times> (string \<times> nat) list) list"

datatype Response =
    ErrorResponse string
  | Delivered string bool bool
  | Messages "Packet list" nat
  | FilteredMessages "Packet list" nat "TagSet option"
  | Counts nat nat TagCounts

text \<open>
  \<^verbatim>\<open>handleSendMail\<close>.  The recipient is not validated.  For a recipient that is an
  inherited name \<^verbatim>\<open>this.mailboxes[recipient]\<close> is the inherited value, no mailbox is created,
  \<^verbatim>\<open>push\<close> is not a function of that value, and the handler's own \<^verbatim>\<open>catch\<close> answers.
\<close>

definition handleSendMail :: "Runtime \<Rightarrow> Server \<Rightarrow> Packet \<Rightarrow> Server \<times> Response" where
  "handleSendMail rt srv packet =
     (case processPacket rt (srvProtocol srv) packet None of
        Failure err \<Rightarrow> (srv, ErrorResponse err)
      | Success accepted \<Rightarrow>
          (case mailboxes srv (recipient accepted) of
             None \<Rightarrow>
               if recipient accepted \<in> set inheritedNames
               then (srv, ErrorResponse (''Failed to process message: ''
                            @ ''this.mailboxes[recipient].push is not a function''))
               else (srv\<lparr>mailboxes := (mailboxes srv)(recipient accepted \<mapsto> [] @ [accepted])\<rparr>,
                     Delivered (messageId (meta accepted)) (encrypted (meta accepted))
                       (signed (meta accepted)))
           | Some box \<Rightarrow>
               (srv\<lparr>mailboxes := (mailboxes srv)(recipient accepted \<mapsto> box @ [accepted])\<rparr>,
                Delivered (messageId (meta accepted)) (encrypted (meta accepted))
                  (signed (meta accepted)))))"

text \<open>
  The loop both retrieval handlers run when PGP is on: every entry that is still marked
  encrypted is processed for the mailbox's owner and replaced when processing succeeds.
\<close>

definition openEntry :: "Runtime \<Rightarrow> Protocol \<Rightarrow> string \<Rightarrow> Packet \<Rightarrow> Packet" where
  "openEntry rt this email packet =
     (if encrypted (meta packet)
      then (case processPacket rt this packet (Some email) of
              Success processed \<Rightarrow> processed
            | Failure err \<Rightarrow> packet)
      else packet)"

definition openMailbox :: "Runtime \<Rightarrow> Server \<Rightarrow> string \<Rightarrow> Packet list \<Rightarrow> Packet list" where
  "openMailbox rt srv email box =
     (if srvUsePGP srv then map (openEntry rt (srvProtocol srv) email) box else box)"


definition handleReceiveFilteredMail ::
  "Runtime \<Rightarrow> Server \<Rightarrow> string \<Rightarrow> TagSet option \<Rightarrow> Server \<times> Response" where
  "handleReceiveFilteredMail rt srv email tagFilters =
     (if \<not> validateEmailFormat email then (srv, ErrorResponse ''Invalid email format'')
      else case mailboxes srv email of
             None \<Rightarrow> (srv, FilteredMessages [] 0 tagFilters)
           | Some box \<Rightarrow>
               if length box = 0 then (srv, FilteredMessages [] 0 tagFilters)
               else
                 (let opened = openMailbox rt srv email box
                  in if tagFilters \<noteq> None \<and> tagFilters \<noteq> Some []
                     then
                       (case filterMessagesByTags opened tagFilters of
                          Inl err \<Rightarrow>
                            (srv\<lparr>mailboxes := (mailboxes srv)(email \<mapsto> opened)\<rparr>,
                             ErrorResponse ''Invalid request format. Must be valid JSON.'')
                        | Inr filteredMessages \<Rightarrow>
                            (let kept = filter (\<lambda>message.
                                     \<not> list_ex (\<lambda>m. messageId (meta m) = messageId (meta message))
                                          filteredMessages) opened
                             in (srv\<lparr>mailboxes := (mailboxes srv)(email \<mapsto> kept)\<rparr>,
                                 FilteredMessages filteredMessages (length filteredMessages)
                                   tagFilters)))
                     else (srv\<lparr>mailboxes := (mailboxes srv)(email := None)\<rparr>,
                           FilteredMessages opened (length opened) tagFilters)))"

text \<open>
  \<^verbatim>\<open>countMessagesByTags\<close> keeps its counts in plain objects.  Where it meets an inherited
  name it works on a built-in object instead of its own table: for an inherited category
  \<^verbatim>\<open>counts[category]\<close> is the built-in value, no table is created and every tag is assigned
  to as a property of that value; for an inherited tag the count is computed from the
  inherited value.  What happens then depends on the engine's built-in objects, which the
  model does not hold; the model ends there and says which built-in was used first.
\<close>

datatype BuiltinUse =
    AssignsToBuiltin string string
  | ReadsBuiltin string string

fun countTags ::
  "string \<Rightarrow> (string \<times> nat) list \<Rightarrow> string list \<Rightarrow> BuiltinUse + (string \<times> nat) list" where
  "countTags category perTag [] = Inr perTag"
| "countTags category perTag (tag # rest) =
     (case map_of perTag tag of
        Some c \<Rightarrow> countTags category (setProperty perTag tag (c + 1)) rest
      | None \<Rightarrow>
          if tag \<in> set inheritedNames then Inl (ReadsBuiltin category tag)
          else countTags category (setProperty perTag tag (0 + 1)) rest)"

fun countCategories :: "TagCounts \<Rightarrow> TagSet \<Rightarrow> BuiltinUse + TagCounts" where
  "countCategories counts [] = Inr counts"
| "countCategories counts ((category, tagList) # entries) =
     (case map_of counts category of
        Some perTag \<Rightarrow>
          (case countTags category perTag tagList of
             Inl use \<Rightarrow> Inl use
           | Inr counted \<Rightarrow> countCategories (setProperty counts category counted) entries)
      | None \<Rightarrow>
          if category \<in> set inheritedNames
          then (case tagList of
                  [] \<Rightarrow> countCategories counts entries
                | tag # rest \<Rightarrow> Inl (AssignsToBuiltin category tag))
          else (case countTags category [] tagList of
                  Inl use \<Rightarrow> Inl use
                | Inr counted \<Rightarrow> countCategories (setProperty counts category counted) entries))"

fun countMessages :: "TagCounts \<Rightarrow> Packet list \<Rightarrow> BuiltinUse + TagCounts" where
  "countMessages counts [] = Inr counts"
| "countMessages counts (m # rest) =
     (case tags (meta m) of
        None \<Rightarrow> countMessages counts rest
      | Some mtags \<Rightarrow>
          (case countCategories counts mtags of
             Inl use \<Rightarrow> Inl use
           | Inr counted \<Rightarrow> countMessages counted rest))"

definition countMessagesByTags :: "Packet list \<Rightarrow> BuiltinUse + TagCounts" where
  "countMessagesByTags messages = countMessages [] messages"

definition handleCheckMail ::
  "Server \<Rightarrow> string \<Rightarrow> TagSet option \<Rightarrow> BuiltinUse + Server \<times> Response" where
  "handleCheckMail srv email tagFilters =
     (if \<not> validateEmailFormat email then Inr (srv, ErrorResponse ''Invalid email format'')
      else
        (let messages = (case mailboxes srv email of None \<Rightarrow> [] | Some box \<Rightarrow> box)
         in if length messages > 0
            then (case countMessagesByTags messages of
                    Inl use \<Rightarrow> Inl use
                  | Inr tagCounts \<Rightarrow>
                      if tagFilters \<noteq> None \<and> tagFilters \<noteq> Some []
                      then (case filterMessagesByTags messages tagFilters of
                              Inl err \<Rightarrow>
                                Inr (srv, ErrorResponse
                                            ''Invalid request format. Must be valid JSON.'')
                            | Inr filteredMessages \<Rightarrow>
                                Inr (srv, Counts (length filteredMessages) (length messages)
                                            tagCounts))
                      else Inr (srv, Counts (length messages) (length messages) tagCounts))
            else Inr (srv, Counts (length messages) (length messages) [])))"

section \<open>Client: the request correlator\<close>

text \<open>
  A response frame as the client reads it, with the fields \<^verbatim>\<open>handleResponse\<close> and the
  welcome test look at; an absent field is \<open>None\<close>.
\<close>

record Frame =
  status :: string
  message :: "string option"
  email :: "string option"
  publicKey :: "string option"
  messages :: "Packet list option"
  tagFilters :: "TagSet option"

text \<open>
  An outstanding request: the promise its caller waits on (\<^verbatim>\<open>resolve\<close> and
  \<^verbatim>\<open>reject\<close> settle it) and the timer of its timeout.
\<close>

record Tracker =
  promise :: nat
  timeout :: nat

datatype Outcome = Resolved Frame | Rejected string

text \<open>
  The client: its protocol object, the table \<^verbatim>\<open>waitingResponses\<close> (a \<^verbatim>\<open>Map\<close>, in
  insertion order), the timers that are armed, and the calls of \<^verbatim>\<open>resolve\<close> and
  \<^verbatim>\<open>reject\<close> made so far, in order.
\<close>

record Client =
  cliProtocol :: Protocol
  waitingResponses :: "(string \<times> Tracker) list"
  timers :: "nat list"
  settled :: "(nat \<times> Outcome) list"

text \<open>\<^verbatim>\<open>Map.set\<close> and \<^verbatim>\<open>Map.delete\<close>: an existing key keeps its place and takes the new value,
  a new key goes to the end.\<close>

fun mapSet :: "('k \<times> 'v) list \<Rightarrow> 'k \<Rightarrow> 'v \<Rightarrow> ('k \<times> 'v) list" where
  "mapSet [] k v = [(k, v)]"
| "mapSet ((k', v') # kvs) k v = (if k' = k then (k, v) # kvs else (k', v') # mapSet kvs k v)"


text \<open>What every request builder does after writing the request: arm the timer, track.\<close>

definition track :: "string \<Rightarrow> Tracker \<Rightarrow> Client \<Rightarrow> Client" where
  "track action tr c =
     c\<lparr>timers := timers c @ [timeout tr],
       waitingResponses := mapSet (waitingResponses c) action tr\<rparr>"






section \<open>Notions of the specification\<close>

text \<open>
  The token string of the data model,
  \<^verbatim>\<open>{version}:{difficulty}:{timestamp}:{sender}:{recipient}:{timestamp}::{counter}:\<close>
  with version 1 and the numbers as a template literal prints them, and what it means for
  a token string to meet a difficulty.
\<close>

definition tokenString ::
  "Runtime \<Rightarrow> nat \<Rightarrow> string \<Rightarrow> string \<Rightarrow> nat \<Rightarrow> nat \<Rightarrow> string" where
  "tokenString rt d from to ts n =
     ''1:'' @ numberToString rt d @ '':'' @ numberToString rt ts @ '':'' @ from @ '':'' @ to
     @ '':'' @ numberToString rt ts @ ''::'' @ numberToString rt n @ '':''"

definition meetsDifficulty :: "Runtime \<Rightarrow> nat \<Rightarrow> string \<Rightarrow> bool" where
  "meetsDifficulty rt d tok = (d \<le> leadingZeros (sha256hex rt tok))"

text \<open>The tags a message carries in a category: none when the message has no tag set or
  the category is not in it.\<close>

definition messageTagsIn :: "Packet \<Rightarrow> string \<Rightarrow> string list" where
  "messageTagsIn m category =
     (case tags (meta m) of
        None \<Rightarrow> []
      | Some mtags \<Rightarrow> (case map_of mtags category of None \<Rightarrow> [] | Some l \<Rightarrow> l))"

text \<open>A packet's tags are plain when no category and no tag is a name that every object
  inherits.\<close>

definition plainTags :: "Packet \<Rightarrow> bool" where
  "plainTags m =
     (case tags (meta m) of
        None \<Rightarrow> True
      | Some mtags \<Rightarrow>
          list_all (\<lambda>entry. fst entry \<notin> set inheritedNames
                      \<and> list_all (\<lambda>tag. tag \<notin> set inheritedNames) (snd entry)) mtags)"


section \<open>Examples\<close>

text \<open>
  The theorems below hold for every runtime.  To run the model on concrete inputs the
  examples use a small one: a serializer without escape sequences (it prints negative zero
  as \<^verbatim>\<open>0\<close>, as \<^verbatim>\<open>JSON.stringify\<close> does), a two-digit stand-in for the digest (the sum of
  the bytes), and an empty key store; a text reads as a key when it starts with the armor
  header.
\<close>

fun quoteString :: "string \<Rightarrow> string" where
  "quoteString s = [CHR 0x22] @ s @ [CHR 0x22]"

fun joinWith :: "string \<Rightarrow> string list \<Rightarrow> string" where
  "joinWith sep [] = []"
| "joinWith sep [x] = x"
| "joinWith sep (x # y # ys) = x @ sep @ joinWith sep (y # ys)"

fun exampleStringify :: "json \<Rightarrow> string" where
  "exampleStringify JNull = ''null''"
| "exampleStringify (JBool b) = (if b then ''true'' else ''false'')"
| "exampleStringify (JNum i) = (if i < 0 then ''-'' @ decimal (nat (- i)) else decimal (nat i))"
| "exampleStringify JNegZero = ''0''"
| "exampleStringify (JStr s) = quoteString s"
| "exampleStringify (JArr vs) = ''['' @ joinWith '','' (map exampleStringify vs) @ '']''"
| "exampleStringify (JObj kvs) =
     ''{'' @ joinWith '','' (map (\<lambda>kv. quoteString (fst kv) @ '':'' @ exampleStringify (snd kv)) kvs)
     @ ''}''"

definition hexDigit :: "nat \<Rightarrow> char" where
  "hexDigit n = ''0123456789abcdef'' ! n"

definition exampleDigest :: "string \<Rightarrow> string" where
  "exampleDigest s =
     (let n = sum_list (map of_char s) mod 256 in [hexDigit (n div 16), hexDigit (n mod 16)])"

definition exampleRuntime :: Runtime where
  "exampleRuntime =
     \<lparr>sha256hex = exampleDigest,
      printNumber = decimal,
      stringify = exampleStringify,
      signDetached = (\<lambda>addr text. NoPrivateKey),
      encryptFor = (\<lambda>addr text. None),
      decryptFor = (\<lambda>addr c. None),
      verifyDetached = (\<lambda>addr text sg. None),
      readKey = (\<lambda>addr armored.
                   if startsWith armored ''-----BEGIN PGP PUBLIC KEY BLOCK-----'' then None
                   else Some ''Misformed armored text'')\<rparr>"

definition exampleProtocol :: Protocol where
  "exampleProtocol = \<lparr>difficulty = 2, usePGP = False, tagCategories = defaultTagCategories\<rparr>"



text \<open>A packet as \<^verbatim>\<open>createMessagePacket\<close> builds it, and a packet of other parties that carries
  the same token string.\<close>

definition examplePacket :: Packet where
  "examplePacket =
     \<lparr>meta = \<lparr>type = ''SEND'', messageId = ''00112233445566778899aabbccddeeff'',
              timestamp = 1799999999000,
              hashcashToken =
                \<lparr>token = ''1:2:1799999999000:(a)%(x.com):(b)%(x.com):1799999999000::2:'',
                 counter = 2\<rparr>,
              encrypted = False, signed = False, signatureVerified = None, decrypted = None,
              tags = Some []\<rparr>,
      sender = ''(a)%(x.com)'', recipient = ''(b)%(x.com)'',
      content = JObj [(''subject'', JStr ''Hi''), (''body'', JStr ''Yo'')],
      verification = \<lparr>messageHash = ''bf'', signature = None\<rparr>\<rparr>"

definition strayPacket :: Packet where
  "strayPacket =
     \<lparr>meta = \<lparr>type = ''SEND'', messageId = ''ffeeddccbbaa99887766554433221100'',
              timestamp = 5,
              hashcashToken =
                \<lparr>token = ''1:2:1799999999000:(a)%(x.com):(b)%(x.com):1799999999000::2:'',
                 counter = 7\<rparr>,
              encrypted = False, signed = False, signatureVerified = None, decrypted = None,
              tags = None\<rparr>,
      sender = ''(c)%(y.org)'', recipient = ''(d)%(y.org)'',
      content = JObj [(''subject'', JStr ''Hi''), (''body'', JStr ''Yo'')],
      verification = \<lparr>messageHash = ''bf'', signature = None\<rparr>\<rparr>"

text \<open>Options that ask for nothing, and a packet marked encrypted.\<close>

definition exampleOptions :: Options where
  "exampleOptions = \<lparr>tagInput = None, sign = False, encrypt = False\<rparr>"

definition sealedPacket :: Packet where
  "sealedPacket =
     examplePacket\<lparr>content := JObj [(''encrypted'', JStr ''-----BEGIN PGP MESSAGE-----'')],
                   meta := (meta examplePacket)\<lparr>encrypted := True\<rparr>\<rparr>"

text \<open>A server without mail, the server that holds the example packet for its recipient,
  and packets that fail the two checks: one whose body was changed, one whose token does
  not meet the difficulty.\<close>

definition emptyServer :: Server where
  "emptyServer = \<lparr>srvProtocol = exampleProtocol, srvUsePGP = False, mailboxes = Map.empty\<rparr>"

definition exampleServer :: Server where
  "exampleServer =
     \<lparr>srvProtocol = exampleProtocol, srvUsePGP = False,
      mailboxes = [''(b)%(x.com)'' \<mapsto> [examplePacket]]\<rparr>"

definition tamperedPacket :: Packet where
  "tamperedPacket =
     examplePacket\<lparr>content := JObj [(''subject'', JStr ''Hi''), (''body'', JStr ''Yo!'')]\<rparr>"

definition spamPacket :: Packet where
  "spamPacket =
     examplePacket\<lparr>meta := (meta examplePacket)
                     \<lparr>hashcashToken := \<lparr>token = ''no work done'', counter = 0\<rparr>\<rparr>\<rparr>"

text \<open>A tagged packet, and a server whose mailbox for \<^verbatim>\<open>(b)%(x.com)\<close> holds an untagged and a
  tagged packet.\<close>

definition taggedPacket :: Packet where
  "taggedPacket =
     examplePacket\<lparr>meta := (meta examplePacket)
                     \<lparr>messageId := ''0123456789abcdef0123456789abcdef'',
                      tags := Some [(''category'', [''promotion''])]\<rparr>\<rparr>"

definition mixedServer :: Server where
  "mixedServer =
     \<lparr>srvProtocol = exampleProtocol, srvUsePGP = False,
      mailboxes = [''(b)%(x.com)'' \<mapsto> [examplePacket, taggedPacket]]\<rparr>"




text \<open>A packet whose body is the number 0, and a packet tagged with a category name that
  every object inherits, with the server that holds it.\<close>

definition zeroPacket :: Packet where
  "zeroPacket =
     examplePacket\<lparr>content := JObj [(''subject'', JStr ''Hi''), (''body'', JNum 0)],
                   verification := \<lparr>messageHash = ''e3'', signature = None\<rparr>\<rparr>"

definition pollutingPacket :: Packet where
  "pollutingPacket =
     examplePacket\<lparr>meta := (meta examplePacket)
                     \<lparr>messageId := ''fedcba9876543210fedcba9876543210'',
                      tags := Some [(''constructor'', [''keys''])]\<rparr>\<rparr>"

definition pollutedServer :: Server where
  "pollutedServer =
     \<lparr>srvProtocol = exampleProtocol, srvUsePGP = False,
      mailboxes = [''(b)%(x.com)'' \<mapsto> [pollutingPacket]]\<rparr>"



section \<open>Proof of work\<close>

declare decimal.simps [simp del]

lemmas example_defs =
  exampleProtocol_def exampleRuntime_def exampleDigest_def hexDigit_def digitChar_def
  decimal.simps tokenString_def leadingZeros_def numberToString_def maxExact_def

text \<open>\<^verbatim>\<open>hash.startsWith('0'.repeat(d))\<close> says that the digest has at least \<open>d\<close> leading zeros.\<close>

lemma startsWith_zeros: "startsWith h (zeros d) = (d \<le> leadingZeros h)"
proof (induction h arbitrary: d)
  case Nil
  show ?case by (auto simp: startsWith_def zeros_def leadingZeros_def)
next
  case (Cons c h)
  show ?case
  proof (cases d)
    case 0
    then show ?thesis by (simp add: startsWith_def zeros_def leadingZeros_def)
  next
    case (Suc k)
    with Cons [of k] show ?thesis
      by (auto simp: startsWith_def zeros_def leadingZeros_def)
  qed
qed

lemma maxExact_power: "maxExact = 2 ^ 53"
  by (simp add: maxExact_def)


lemma numberToString_version: "numberToString rt (Suc 0) = ''1''"
  by (simp add: numberToString_def maxExact_def decimal.simps digitChar_def)

lemma hashCashLoop_unfold:
  "hashCashLoop rt this ts (from @ '':'' @ to @ '':'' @ numberToString rt ts) n =
     (if meetsDifficulty rt (difficulty this) (tokenString rt (difficulty this) from to ts n)
      then Some \<lparr>token = tokenString rt (difficulty this) from to ts n, counter = n\<rparr>
      else hashCashLoop rt this ts (from @ '':'' @ to @ '':'' @ numberToString rt ts)
             (increment n))"
  by (subst hashCashLoop.simps)
     (simp add: Let_def generateSHA256_def startsWith_zeros meetsDifficulty_def tokenString_def
        numberToString_version)

lemma hashCashLoop_finds:
  assumes "meetsDifficulty rt (difficulty this) (tokenString rt (difficulty this) from to ts (n + k))"
    and "\<forall>j<k. \<not> meetsDifficulty rt (difficulty this)
                  (tokenString rt (difficulty this) from to ts (n + j))"
    and "n + k \<le> maxExact"
  shows "hashCashLoop rt this ts (from @ '':'' @ to @ '':'' @ numberToString rt ts) n =
           Some \<lparr>token = tokenString rt (difficulty this) from to ts (n + k), counter = n + k\<rparr>"
  using assms
proof (induction k arbitrary: n)
  case 0
  then show ?case by (subst hashCashLoop_unfold) simp
next
  case (Suc k)
  from Suc.prems(2) have here:
    "\<not> meetsDifficulty rt (difficulty this) (tokenString rt (difficulty this) from to ts n)"
    by (metis add.right_neutral zero_less_Suc)
  have later:
    "\<forall>j<k. \<not> meetsDifficulty rt (difficulty this)
              (tokenString rt (difficulty this) from to ts (Suc n + j))"
    using Suc.prems(2) by (metis Suc_less_eq add_Suc_shift)
  from Suc.prems(3) have step: "increment n = Suc n"
    by (simp add: increment_def)
  have "hashCashLoop rt this ts (from @ '':'' @ to @ '':'' @ numberToString rt ts) (Suc n) =
          Some \<lparr>token = tokenString rt (difficulty this) from to ts (Suc n + k),
                counter = Suc n + k\<rparr>"
    using Suc.IH [of "Suc n"] Suc.prems(1,3) later by simp
  with here step show ?case by (subst hashCashLoop_unfold) simp
qed

text \<open>The search returns the first counter that meets the difficulty, when there is one
  that the counter reaches.\<close>

lemma generateHashCash_least:
  assumes "meetsDifficulty rt (difficulty this) (tokenString rt (difficulty this) from to ts c)"
    and "c \<le> maxExact"
  defines "k \<equiv> (LEAST j. meetsDifficulty rt (difficulty this)
                           (tokenString rt (difficulty this) from to ts j))"
  shows "generateHashCash rt this from to ts =
           Some \<lparr>token = tokenString rt (difficulty this) from to ts k, counter = k\<rparr>"
    and "meetsDifficulty rt (difficulty this) (tokenString rt (difficulty this) from to ts k)"
    and "k \<le> c"
    and "\<forall>j<k. \<not> meetsDifficulty rt (difficulty this)
                  (tokenString rt (difficulty this) from to ts j)"
proof -
  show hit: "meetsDifficulty rt (difficulty this) (tokenString rt (difficulty this) from to ts k)"
    unfolding k_def using assms(1) by (rule LeastI)
  show below: "k \<le> c" unfolding k_def using assms(1) by (rule Least_le)
  show miss: "\<forall>j<k. \<not> meetsDifficulty rt (difficulty this)
                        (tokenString rt (difficulty this) from to ts j)"
    unfolding k_def using not_less_Least by blast
  from below assms(2) have "0 + k \<le> maxExact" by simp
  with hashCashLoop_finds [of rt this "from" to ts 0 k] hit miss
  show "generateHashCash rt this from to ts =
           Some \<lparr>token = tokenString rt (difficulty this) from to ts k, counter = k\<rparr>"
    by (simp add: generateHashCash_def Let_def)
qed

text \<open>Whatever the search returns meets the difficulty.\<close>

lemma hashCashLoop_Some:
  assumes returned: "hashCashLoop rt this ts resource n = Some t"
  shows "meetsDifficulty rt (difficulty this) (token t)"
proof (rule hashCashLoop.raw_induct
    [where P = "\<lambda>rt this ts resource n t. meetsDifficulty rt (difficulty this) (token t)",
     OF _ returned])
  fix loop rt this ts resource n t
  assume IH: "\<And>rt this ts resource n y. loop rt this ts resource n = Some y
                \<Longrightarrow> meetsDifficulty rt (difficulty this) (token y)"
    and step: "(let tok = numberToString rt 1 @ '':'' @ numberToString rt (difficulty this) @ '':''
                      @ numberToString rt ts @ '':'' @ resource @ ''::'' @ numberToString rt n @ '':'';
                    hash = generateSHA256 rt tok
                in if startsWith hash (zeros (difficulty this))
                   then Some \<lparr>token = tok, counter = n\<rparr>
                   else loop rt this ts resource (increment n)) = Some t"
  let ?tok = "numberToString rt 1 @ '':'' @ numberToString rt (difficulty this) @ '':''
                @ numberToString rt ts @ '':'' @ resource @ ''::'' @ numberToString rt n @ '':''"
  show "meetsDifficulty rt (difficulty this) (token t)"
  proof (cases "meetsDifficulty rt (difficulty this) ?tok")
    case True
    with step have "t = \<lparr>token = ?tok, counter = n\<rparr>"
      by (simp add: Let_def generateSHA256_def startsWith_zeros meetsDifficulty_def)
    with True show ?thesis by simp
  next
    case False
    with step have "loop rt this ts resource (increment n) = Some t"
      by (simp add: Let_def generateSHA256_def startsWith_zeros meetsDifficulty_def)
    then show ?thesis by (rule IH)
  qed
qed

lemma generateHashCash_Some:
  "generateHashCash rt this from to ts = Some t \<Longrightarrow> meetsDifficulty rt (difficulty this) (token t)"
  by (auto simp: generateHashCash_def Let_def dest: hashCashLoop_Some)










section \<open>Verification\<close>

lemma generateHashCash_example:
  "generateHashCash exampleRuntime exampleProtocol ''(a)%(x.com)'' ''(b)%(x.com)'' 1799999999000
     = Some \<lparr>token = ''1:2:1799999999000:(a)%(x.com):(b)%(x.com):1799999999000::2:'',
              counter = 2\<rparr>"
proof -
  have hit: "meetsDifficulty exampleRuntime (difficulty exampleProtocol)
          (tokenString exampleRuntime (difficulty exampleProtocol) ''(a)%(x.com)'' ''(b)%(x.com)''
             1799999999000 (0 + 2))"
    by (simp add: meetsDifficulty_def example_defs)
  have m0: "\<not> meetsDifficulty exampleRuntime (difficulty exampleProtocol)
          (tokenString exampleRuntime (difficulty exampleProtocol) ''(a)%(x.com)'' ''(b)%(x.com)''
             1799999999000 0)"
    by (simp add: meetsDifficulty_def example_defs)
  have m1: "\<not> meetsDifficulty exampleRuntime (difficulty exampleProtocol)
          (tokenString exampleRuntime (difficulty exampleProtocol) ''(a)%(x.com)'' ''(b)%(x.com)''
             1799999999000 1)"
    by (simp add: meetsDifficulty_def example_defs)
  have miss: "\<forall>j<2. \<not> meetsDifficulty exampleRuntime (difficulty exampleProtocol)
          (tokenString exampleRuntime (difficulty exampleProtocol) ''(a)%(x.com)'' ''(b)%(x.com)''
             1799999999000 (0 + j))"
  proof (intro allI impI)
    fix j :: nat
    assume "j < 2"
    then have "j = 0 \<or> j = 1" by arith
    then show "\<not> meetsDifficulty exampleRuntime (difficulty exampleProtocol)
          (tokenString exampleRuntime (difficulty exampleProtocol) ''(a)%(x.com)'' ''(b)%(x.com)''
             1799999999000 (0 + j))"
      using m0 m1 by (elim disjE) simp_all
  qed
  have reach: "(0::nat) + 2 \<le> maxExact" by (simp add: maxExact_def)
  have "generateHashCash exampleRuntime exampleProtocol ''(a)%(x.com)'' ''(b)%(x.com)'' 1799999999000
     = Some \<lparr>token = tokenString exampleRuntime (difficulty exampleProtocol) ''(a)%(x.com)''
                ''(b)%(x.com)'' 1799999999000 (0 + 2), counter = 0 + 2\<rparr>"
    unfolding generateHashCash_def Let_def by (rule hashCashLoop_finds [OF hit miss reach])
  then show ?thesis by (simp add: example_defs)
qed

text \<open>
  Claim C2.  \<^verbatim>\<open>verifyHashCash\<close> returns true exactly when the digest of the stored token
  string has at least \<open>difficulty\<close> leading zeros.  Two packets with the same token string
  get the same answer, whatever their senders, recipients, timestamps and counter fields
  are; and a token generated for one sender, recipient and timestamp passes in any packet,
  with any counter field.
\<close>

theorem verifyHashCash_token_only:
  "verifyHashCash rt this p
     = (difficulty this \<le> leadingZeros (sha256hex rt (token (hashcashToken (meta p)))))
   \<and> (token (hashcashToken (meta q)) = token (hashcashToken (meta p))
        \<longrightarrow> verifyHashCash rt this q = verifyHashCash rt this p)
   \<and> (generateHashCash rt this from to ts = Some t
        \<longrightarrow> verifyHashCash rt this (q\<lparr>meta := (meta q)\<lparr>hashcashToken := t\<lparr>counter := n\<rparr>\<rparr>\<rparr>))"
proof (intro conjI impI)
  show "verifyHashCash rt this p
     = (difficulty this \<le> leadingZeros (sha256hex rt (token (hashcashToken (meta p)))))"
    by (simp add: verifyHashCash_def Let_def generateSHA256_def startsWith_zeros)
  show "verifyHashCash rt this q = verifyHashCash rt this p"
    if "token (hashcashToken (meta q)) = token (hashcashToken (meta p))"
    using that by (simp add: verifyHashCash_def)
  show "verifyHashCash rt this (q\<lparr>meta := (meta q)\<lparr>hashcashToken := t\<lparr>counter := n\<rparr>\<rparr>\<rparr>)"
    if "generateHashCash rt this from to ts = Some t"
    using generateHashCash_Some [OF that]
    by (simp add: verifyHashCash_def Let_def generateSHA256_def startsWith_zeros meetsDifficulty_def)
qed

text \<open>The token generated for \<^verbatim>\<open>(a)%(x.com)\<close> passes in a packet from \<^verbatim>\<open>(c)%(y.org)\<close>.\<close>

theorem verifyHashCash_token_only_witness:
  "token (hashcashToken (meta strayPacket)) = token (hashcashToken (meta examplePacket))
   \<and> generateHashCash exampleRuntime exampleProtocol ''(a)%(x.com)'' ''(b)%(x.com)'' 1799999999000
       = Some (hashcashToken (meta examplePacket))
   \<and> sender strayPacket \<noteq> ''(a)%(x.com)'' \<and> recipient strayPacket \<noteq> ''(b)%(x.com)''
   \<and> timestamp (meta strayPacket) \<noteq> 1799999999000
   \<and> verifyHashCash exampleRuntime exampleProtocol strayPacket
       = verifyHashCash exampleRuntime exampleProtocol examplePacket
   \<and> verifyHashCash exampleRuntime exampleProtocol
        (strayPacket\<lparr>meta := (meta strayPacket)
           \<lparr>hashcashToken := (hashcashToken (meta examplePacket))\<lparr>counter := 7\<rparr>\<rparr>\<rparr>)"
proof -
  have same: "token (hashcashToken (meta strayPacket)) = token (hashcashToken (meta examplePacket))"
    by (simp add: strayPacket_def examplePacket_def)
  have made: "generateHashCash exampleRuntime exampleProtocol ''(a)%(x.com)'' ''(b)%(x.com)''
                1799999999000 = Some (hashcashToken (meta examplePacket))"
    by (simp add: generateHashCash_example examplePacket_def)
  have other: "sender strayPacket \<noteq> ''(a)%(x.com)'' \<and> recipient strayPacket \<noteq> ''(b)%(x.com)''
     \<and> timestamp (meta strayPacket) \<noteq> 1799999999000"
    by (simp add: strayPacket_def)
  note inst = verifyHashCash_token_only [of exampleRuntime exampleProtocol examplePacket strayPacket
      "''(a)%(x.com)''" "''(b)%(x.com)''" 1799999999000 "hashcashToken (meta examplePacket)" 7]
  from inst same have a: "verifyHashCash exampleRuntime exampleProtocol strayPacket
       = verifyHashCash exampleRuntime exampleProtocol examplePacket"
    by (elim conjE) (rule mp)
  from inst made have b: "verifyHashCash exampleRuntime exampleProtocol
        (strayPacket\<lparr>meta := (meta strayPacket)
           \<lparr>hashcashToken := (hashcashToken (meta examplePacket))\<lparr>counter := 7\<rparr>\<rparr>\<rparr>)"
    by (elim conjE) (rule mp)
  from same made other a b show ?thesis by (intro conjI) (elim conjE, assumption)+
qed

lemma example_content_digest:
  "sha256hex exampleRuntime (stringify exampleRuntime
     (JObj [(''subject'', JStr ''Hi''), (''body'', JStr ''Yo'')])) = ''bf''"
  by (simp add: exampleRuntime_def exampleDigest_def hexDigit_def)

lemma example_changed_digest:
  "sha256hex exampleRuntime (stringify exampleRuntime
     (JObj [(''subject'', JStr ''Hi''), (''body'', JStr ''Yo!'')])) = ''e0''"
  by (simp add: exampleRuntime_def exampleDigest_def hexDigit_def)

lemma example_swapped_digest:
  "sha256hex exampleRuntime (stringify exampleRuntime
     (JObj [(''subject'', JStr ''Hi''), (''body'', JStr ''oY'')])) = ''bf''"
  by (simp add: exampleRuntime_def exampleDigest_def hexDigit_def)

lemma example_zero_digest:
  "sha256hex exampleRuntime (stringify exampleRuntime
     (JObj [(''subject'', JStr ''Hi''), (''body'', JNum 0)])) = ''e3''"
  by (simp add: exampleRuntime_def exampleDigest_def hexDigit_def decimal.simps digitChar_def)

lemma example_negative_zero_digest:
  "sha256hex exampleRuntime (stringify exampleRuntime
     (JObj [(''subject'', JStr ''Hi''), (''body'', JNegZero)])) = ''e3''"
  by (simp add: exampleRuntime_def exampleDigest_def hexDigit_def)

text \<open>
  Claim C3, as the specification words it, does not hold: a change of the content that
  leaves the digest of its serialization as it was goes unnoticed.  The packet with body 0
  verifies, and still does with body \<^verbatim>\<open>-0\<close>, which \<^verbatim>\<open>JSON.stringify\<close> prints as \<^verbatim>\<open>0\<close>; under
  the example digest the example packet still verifies when the letters of its body are
  swapped.
\<close>

theorem verifyMessageIntegrity_mutation_counterexample:
  "\<not> encrypted (meta zeroPacket)
   \<and> verifyMessageIntegrity exampleRuntime zeroPacket
   \<and> JObj [(''subject'', JStr ''Hi''), (''body'', JNegZero)] \<noteq> content zeroPacket
   \<and> verifyMessageIntegrity exampleRuntime
        (zeroPacket\<lparr>content := JObj [(''subject'', JStr ''Hi''), (''body'', JNegZero)]\<rparr>)
   \<and> \<not> encrypted (meta examplePacket)
   \<and> verifyMessageIntegrity exampleRuntime examplePacket
   \<and> JObj [(''subject'', JStr ''Hi''), (''body'', JStr ''oY'')] \<noteq> content examplePacket
   \<and> verifyMessageIntegrity exampleRuntime
        (examplePacket\<lparr>content := JObj [(''subject'', JStr ''Hi''), (''body'', JStr ''oY'')]\<rparr>)"
proof (intro conjI)
  show "\<not> encrypted (meta zeroPacket)" "\<not> encrypted (meta examplePacket)"
    by (simp_all add: zeroPacket_def examplePacket_def)
  show "JObj [(''subject'', JStr ''Hi''), (''body'', JNegZero)] \<noteq> content zeroPacket"
    "JObj [(''subject'', JStr ''Hi''), (''body'', JStr ''oY'')] \<noteq> content examplePacket"
    by (simp_all add: zeroPacket_def examplePacket_def)
  show "verifyMessageIntegrity exampleRuntime zeroPacket"
    using example_zero_digest
    by (simp add: verifyMessageIntegrity_def generateSHA256_def zeroPacket_def examplePacket_def)
  show "verifyMessageIntegrity exampleRuntime
        (zeroPacket\<lparr>content := JObj [(''subject'', JStr ''Hi''), (''body'', JNegZero)]\<rparr>)"
    using example_negative_zero_digest
    by (simp add: verifyMessageIntegrity_def generateSHA256_def zeroPacket_def examplePacket_def)
  show "verifyMessageIntegrity exampleRuntime examplePacket"
    using example_content_digest
    by (simp add: verifyMessageIntegrity_def generateSHA256_def examplePacket_def)
  show "verifyMessageIntegrity exampleRuntime
        (examplePacket\<lparr>content := JObj [(''subject'', JStr ''Hi''), (''body'', JStr ''oY'')]\<rparr>)"
    using example_swapped_digest
    by (simp add: verifyMessageIntegrity_def generateSHA256_def examplePacket_def)
qed

text \<open>
  Claim C3, amended.  A packet marked encrypted verifies, whatever its content and its
  stored hash are and however they are changed.  A packet not marked encrypted verifies
  exactly when the digest of the serialization of its content equals the stored hash; so
  after its content is replaced it verifies exactly when the digest of the serialization
  of the new content equals the stored hash.  For a packet that verified, that is: the
  change makes verification fail exactly when it changes that digest.
\<close>

theorem verifyMessageIntegrity_cases:
  "(encrypted (meta p) \<longrightarrow> verifyMessageIntegrity rt p)
   \<and> (encrypted (meta p) \<longrightarrow> verifyMessageIntegrity rt (p\<lparr>content := c', verification := v'\<rparr>))
   \<and> (\<not> encrypted (meta p) \<longrightarrow>
        verifyMessageIntegrity rt p
          = (sha256hex rt (stringify rt (content p)) = messageHash (verification p)))
   \<and> (\<not> encrypted (meta p) \<longrightarrow>
        verifyMessageIntegrity rt (p\<lparr>content := c'\<rparr>)
          = (sha256hex rt (stringify rt c') = messageHash (verification p)))
   \<and> (\<not> encrypted (meta p) \<and> verifyMessageIntegrity rt p \<longrightarrow>
        (\<not> verifyMessageIntegrity rt (p\<lparr>content := c'\<rparr>))
          = (sha256hex rt (stringify rt c') \<noteq> sha256hex rt (stringify rt (content p))))"
  by (auto simp: verifyMessageIntegrity_def generateSHA256_def Let_def)

text \<open>An encrypted packet with changed content and hash verifies; the example packet
  verifies, and no longer does when its body is changed to one with another digest.\<close>

theorem verifyMessageIntegrity_cases_witness:
  "encrypted (meta sealedPacket)
   \<and> verifyMessageIntegrity exampleRuntime sealedPacket
   \<and> verifyMessageIntegrity exampleRuntime
        (sealedPacket\<lparr>content := JStr ''garbage'',
                      verification := \<lparr>messageHash = ''no hash'', signature = None\<rparr>\<rparr>)
   \<and> \<not> encrypted (meta examplePacket)
   \<and> verifyMessageIntegrity exampleRuntime examplePacket
   \<and> sha256hex exampleRuntime (stringify exampleRuntime
          (JObj [(''subject'', JStr ''Hi''), (''body'', JStr ''Yo!'')]))
       \<noteq> sha256hex exampleRuntime (stringify exampleRuntime (content examplePacket))
   \<and> \<not> verifyMessageIntegrity exampleRuntime
          (examplePacket\<lparr>content := JObj [(''subject'', JStr ''Hi''), (''body'', JStr ''Yo!'')]\<rparr>)"
proof -
  have enc: "encrypted (meta sealedPacket)"
    by (simp add: sealedPacket_def)
  have plain: "\<not> encrypted (meta examplePacket)"
    by (simp add: examplePacket_def)
  have stored: "sha256hex exampleRuntime (stringify exampleRuntime (content examplePacket))
                  = messageHash (verification examplePacket)"
    using example_content_digest by (simp add: examplePacket_def)
  have differs: "sha256hex exampleRuntime (stringify exampleRuntime
          (JObj [(''subject'', JStr ''Hi''), (''body'', JStr ''Yo!'')]))
       \<noteq> sha256hex exampleRuntime (stringify exampleRuntime (content examplePacket))"
    using example_content_digest example_changed_digest by (simp add: examplePacket_def)
  note sealed = verifyMessageIntegrity_cases [where p = sealedPacket and rt = exampleRuntime
      and c' = "JStr ''garbage''" and v' = "\<lparr>messageHash = ''no hash'', signature = None\<rparr>"]
  note opened = verifyMessageIntegrity_cases [where p = examplePacket and rt = exampleRuntime
      and c' = "JObj [(''subject'', JStr ''Hi''), (''body'', JStr ''Yo!'')]"]
  from sealed enc have s1: "verifyMessageIntegrity exampleRuntime sealedPacket"
    and s2: "verifyMessageIntegrity exampleRuntime
        (sealedPacket\<lparr>content := JStr ''garbage'',
                      verification := \<lparr>messageHash = ''no hash'', signature = None\<rparr>\<rparr>)"
    by blast+
  from opened plain stored have o1: "verifyMessageIntegrity exampleRuntime examplePacket"
    by blast
  from opened plain o1 differs have o2: "\<not> verifyMessageIntegrity exampleRuntime
          (examplePacket\<lparr>content := JObj [(''subject'', JStr ''Hi''), (''body'', JStr ''Yo!'')]\<rparr>)"
    by blast
  from enc s1 s2 plain o1 differs o2 show ?thesis by (intro conjI)
qed

section \<open>Building a packet\<close>

lemma validate_a: "validateEmailFormat ''(a)%(x.com)''"
  by (simp add: validateEmailFormat_def startsWith_def localChar_def domainChar_def alnum_def)

lemma validate_b: "validateEmailFormat ''(b)%(x.com)''"
  by (simp add: validateEmailFormat_def startsWith_def localChar_def domainChar_def alnum_def)

lemma validate_plain_address: "\<not> validateEmailFormat ''alice@example.com''"
  by (simp add: validateEmailFormat_def startsWith_def localChar_def domainChar_def alnum_def)

text \<open>Every packet that \<^verbatim>\<open>createMessagePacket\<close> returns without encryption carries the
  subject and the body and verifies.\<close>

lemma createMessagePacket_returned:
  assumes "createMessagePacket rt this from to subject body ty options now randomId
             = Some (Inr q)"
    and "\<not> encrypted (meta q)"
  shows "content q = JObj [(''subject'', JStr subject), (''body'', JStr body)]"
    and "messageHash (verification q)
           = sha256hex rt (stringify rt (JObj [(''subject'', JStr subject), (''body'', JStr body)]))"
    and "verifyMessageIntegrity rt q"
  using assms
  by (auto simp: createMessagePacket_def Let_def verifyMessageIntegrity_def generateSHA256_def
      split: if_splits option.splits SignOutcome.splits sum.splits)

lemma createMessagePacket_returns:
  assumes "validateEmailFormat from" and "validateEmailFormat to"
    and reach: "c \<le> maxExact"
    and found: "meetsDifficulty rt (difficulty this)
                  (tokenString rt (difficulty this) from to now c)"
    and signs: "sign options \<and> usePGP this \<longrightarrow>
                  (\<forall>e. signDetached rt from
                         (stringify rt (JObj [(''subject'', JStr subject), (''body'', JStr body)]))
                       \<noteq> SignThrows e)"
    and plain: "encrypt options \<and> usePGP this \<longrightarrow>
                  encryptFor rt to
                    (stringify rt (JObj [(''subject'', JStr subject), (''body'', JStr body)])) = None"
  shows "\<exists>p. createMessagePacket rt this from to subject body ty options now randomId
               = Some (Inr p)
           \<and> \<not> encrypted (meta p)"
proof -
  from generateHashCash_least(1) [OF found reach]
  obtain t where t: "generateHashCash rt this from to now = Some t" by blast
  show ?thesis
  proof (cases "sign options \<and> usePGP this")
    case False
    with assms(1,2) t plain show ?thesis
      by (auto simp: createMessagePacket_def Let_def)
  next
    case True
    with signs have nothrow: "\<forall>e. signDetached rt from
         (stringify rt (JObj [(''subject'', JStr subject), (''body'', JStr body)])) \<noteq> SignThrows e"
      by blast
    show ?thesis
    proof (cases "signDetached rt from
         (stringify rt (JObj [(''subject'', JStr subject), (''body'', JStr body)]))")
      case NoPrivateKey
      with assms(1,2) t plain True show ?thesis
        by (auto simp: createMessagePacket_def Let_def)
    next
      case (Signed sg)
      with assms(1,2) t plain True show ?thesis
        by (auto simp: createMessagePacket_def Let_def)
    next
      case (SignThrows e)
      with nothrow show ?thesis by blast
    qed
  qed
qed

text \<open>
  Claim C4.  For valid sender and recipient addresses and any subject and body,
  \<^verbatim>\<open>createMessagePacket\<close> returns a packet whenever the proof-of-work search succeeds (a
  counter up to \<open>2^53\<close> meets the difficulty) and signing does not throw.  When encryption
  is not applied, the packet's content is the object with the fields \<open>subject\<close> and \<open>body\<close>
  in that order, the stored hash is the digest of its serialization, and
  \<^verbatim>\<open>verifyMessageIntegrity\<close> accepts the packet.
\<close>

theorem createMessagePacket_round_trip:
  assumes "validateEmailFormat from" and "validateEmailFormat to"
    and reach: "c \<le> 2 ^ 53"
    and found: "difficulty this
                  \<le> leadingZeros (sha256hex rt (tokenString rt (difficulty this) from to now c))"
    and signs: "sign options \<and> usePGP this \<longrightarrow>
                  (\<forall>e. signDetached rt from
                         (stringify rt (JObj [(''subject'', JStr subject), (''body'', JStr body)]))
                       \<noteq> SignThrows e)"
    and plain: "encrypt options \<and> usePGP this \<longrightarrow>
                  encryptFor rt to
                    (stringify rt (JObj [(''subject'', JStr subject), (''body'', JStr body)])) = None"
  shows "\<exists>p. createMessagePacket rt this from to subject body ty options now randomId
               = Some (Inr p)
           \<and> \<not> encrypted (meta p)
           \<and> content p = JObj [(''subject'', JStr subject), (''body'', JStr body)]
           \<and> messageHash (verification p)
               = sha256hex rt (stringify rt (JObj [(''subject'', JStr subject), (''body'', JStr body)]))
           \<and> verifyMessageIntegrity rt p"
proof -
  from reach have "c \<le> maxExact" by (simp add: maxExact_def)
  moreover from found have "meetsDifficulty rt (difficulty this)
                              (tokenString rt (difficulty this) from to now c)"
    by (simp add: meetsDifficulty_def)
  ultimately obtain p where
    p: "createMessagePacket rt this from to subject body ty options now randomId = Some (Inr p)"
    and unsealed: "\<not> encrypted (meta p)"
    using createMessagePacket_returns [OF assms(1,2) _ _ signs plain] by blast
  from p unsealed createMessagePacket_returned [OF p unsealed] show ?thesis by blast
qed

lemma createMessagePacket_example:
  "createMessagePacket exampleRuntime exampleProtocol ''(a)%(x.com)'' ''(b)%(x.com)'' ''Hi'' ''Yo''
     ''SEND'' exampleOptions 1799999999000 ''00112233445566778899aabbccddeeff''
   = Some (Inr examplePacket)"
proof -
  have off: "usePGP exampleProtocol = False"
    by (simp add: exampleProtocol_def)
  show ?thesis
    using example_content_digest
    by (simp add: createMessagePacket_def validate_a validate_b generateHashCash_example Let_def
          generateSHA256_def exampleOptions_def examplePacket_def off)
qed

text \<open>The message \<^verbatim>\<open>Hi\<close>/\<^verbatim>\<open>Yo\<close> from \<^verbatim>\<open>(a)%(x.com)\<close> to \<^verbatim>\<open>(b)%(x.com)\<close>.\<close>

theorem createMessagePacket_round_trip_witness:
  "validateEmailFormat ''(a)%(x.com)'' \<and> validateEmailFormat ''(b)%(x.com)''
   \<and> (2::nat) \<le> 2 ^ 53
   \<and> difficulty exampleProtocol \<le> leadingZeros (sha256hex exampleRuntime
         (tokenString exampleRuntime (difficulty exampleProtocol) ''(a)%(x.com)'' ''(b)%(x.com)''
            1799999999000 2))
   \<and> (\<exists>p. createMessagePacket exampleRuntime exampleProtocol ''(a)%(x.com)'' ''(b)%(x.com)''
              ''Hi'' ''Yo'' ''SEND'' exampleOptions 1799999999000
              ''00112233445566778899aabbccddeeff'' = Some (Inr p)
          \<and> \<not> encrypted (meta p)
          \<and> content p = JObj [(''subject'', JStr ''Hi''), (''body'', JStr ''Yo'')]
          \<and> messageHash (verification p)
              = sha256hex exampleRuntime (stringify exampleRuntime
                  (JObj [(''subject'', JStr ''Hi''), (''body'', JStr ''Yo'')]))
          \<and> verifyMessageIntegrity exampleRuntime p)"
proof -
  have reach: "(2::nat) \<le> 2 ^ 53" by simp
  have found: "difficulty exampleProtocol \<le> leadingZeros (sha256hex exampleRuntime
         (tokenString exampleRuntime (difficulty exampleProtocol) ''(a)%(x.com)'' ''(b)%(x.com)''
            1799999999000 2))"
    by (simp add: example_defs)
  have signs: "sign exampleOptions \<and> usePGP exampleProtocol \<longrightarrow>
                  (\<forall>e. signDetached exampleRuntime ''(a)%(x.com)''
                         (stringify exampleRuntime (JObj [(''subject'', JStr ''Hi''), (''body'', JStr ''Yo'')]))
                       \<noteq> SignThrows e)"
    by (simp add: exampleOptions_def)
  have plain: "encrypt exampleOptions \<and> usePGP exampleProtocol \<longrightarrow>
                  encryptFor exampleRuntime ''(b)%(x.com)''
                    (stringify exampleRuntime (JObj [(''subject'', JStr ''Hi''), (''body'', JStr ''Yo'')])) = None"
    by (simp add: exampleOptions_def)
  from validate_a validate_b reach found
    createMessagePacket_round_trip [OF validate_a validate_b reach found signs plain,
      of "''SEND''" "''00112233445566778899aabbccddeeff''"]
  show ?thesis by (intro conjI)
qed

section \<open>Server: SEND\<close>

lemma example_verifies:
  "verifyMessageIntegrity exampleRuntime examplePacket"
  using example_content_digest
  by (simp add: verifyMessageIntegrity_def generateSHA256_def examplePacket_def)

lemma example_has_worked:
  "verifyHashCash exampleRuntime exampleProtocol examplePacket"
  by (simp add: verifyHashCash_def generateSHA256_def startsWith_zeros examplePacket_def example_defs)

lemma tampered_fails:
  "\<not> verifyMessageIntegrity exampleRuntime tamperedPacket"
  using example_changed_digest
  by (simp add: verifyMessageIntegrity_def generateSHA256_def examplePacket_def tamperedPacket_def)

lemma spam_verifies_integrity:
  "verifyMessageIntegrity exampleRuntime spamPacket"
  using example_content_digest
  by (simp add: verifyMessageIntegrity_def generateSHA256_def examplePacket_def spamPacket_def)

lemma spam_has_not_worked:
  "\<not> verifyHashCash exampleRuntime exampleProtocol spamPacket"
  by (simp add: verifyHashCash_def generateSHA256_def startsWith_zeros spamPacket_def example_defs)

text \<open>
  Claim C5.  \<^verbatim>\<open>processPacket\<close> checks integrity first and the proof of work second.  A
  packet that fails the integrity check gets the integrity error, whatever its token is;
  a packet that passes it and fails the proof-of-work check gets the anti-spam error.  In
  both cases the SEND handler answers with that error and returns the server as it was:
  no mailbox changes.
\<close>

theorem processPacket_rejects_in_order:
  "(\<not> verifyMessageIntegrity rt packet \<longrightarrow>
      processPacket rt this packet recipientEmail = Failure ''Message integrity check failed''
      \<and> handleSendMail rt srv packet = (srv, ErrorResponse ''Message integrity check failed''))
   \<and> (verifyMessageIntegrity rt packet \<and> \<not> verifyHashCash rt this packet \<longrightarrow>
        processPacket rt this packet recipientEmail
          = Failure ''HashCash verification failed - potential spam'')
   \<and> (verifyMessageIntegrity rt packet \<and> \<not> verifyHashCash rt (srvProtocol srv) packet \<longrightarrow>
        handleSendMail rt srv packet
          = (srv, ErrorResponse ''HashCash verification failed - potential spam''))
   \<and> (\<not> verifyMessageIntegrity rt packet \<or> \<not> verifyHashCash rt (srvProtocol srv) packet \<longrightarrow>
        mailboxes (fst (handleSendMail rt srv packet)) = mailboxes srv)"
  by (simp add: processPacket_def handleSendMail_def)

text \<open>The tampered packet and the packet without work are both refused by the example
  server, each with its own error.\<close>

theorem processPacket_rejects_in_order_witness:
  "\<not> verifyMessageIntegrity exampleRuntime tamperedPacket
   \<and> processPacket exampleRuntime exampleProtocol tamperedPacket None
       = Failure ''Message integrity check failed''
   \<and> handleSendMail exampleRuntime exampleServer tamperedPacket
       = (exampleServer, ErrorResponse ''Message integrity check failed'')
   \<and> verifyMessageIntegrity exampleRuntime spamPacket
   \<and> \<not> verifyHashCash exampleRuntime (srvProtocol exampleServer) spamPacket
   \<and> processPacket exampleRuntime (srvProtocol exampleServer) spamPacket None
       = Failure ''HashCash verification failed - potential spam''
   \<and> handleSendMail exampleRuntime exampleServer spamPacket
       = (exampleServer, ErrorResponse ''HashCash verification failed - potential spam'')
   \<and> mailboxes (fst (handleSendMail exampleRuntime exampleServer spamPacket))
       = mailboxes exampleServer"
proof -
  have proto: "srvProtocol exampleServer = exampleProtocol"
    by (simp add: exampleServer_def)
  have unworked: "\<not> verifyHashCash exampleRuntime (srvProtocol exampleServer) spamPacket"
    using spam_has_not_worked by (simp add: proto)
  note tampered = processPacket_rejects_in_order [where rt = exampleRuntime
      and packet = tamperedPacket and this = exampleProtocol and srv = exampleServer
      and recipientEmail = None]
  note spam = processPacket_rejects_in_order [where rt = exampleRuntime
      and packet = spamPacket and this = "srvProtocol exampleServer" and srv = exampleServer
      and recipientEmail = None]
  from tampered tampered_fails
  have t: "processPacket exampleRuntime exampleProtocol tamperedPacket None
             = Failure ''Message integrity check failed''
           \<and> handleSendMail exampleRuntime exampleServer tamperedPacket
             = (exampleServer, ErrorResponse ''Message integrity check failed'')"
    by blast
  from spam spam_verifies_integrity unworked
  have s: "processPacket exampleRuntime (srvProtocol exampleServer) spamPacket None
             = Failure ''HashCash verification failed - potential spam''
           \<and> handleSendMail exampleRuntime exampleServer spamPacket
             = (exampleServer, ErrorResponse ''HashCash verification failed - potential spam'')
           \<and> mailboxes (fst (handleSendMail exampleRuntime exampleServer spamPacket))
             = mailboxes exampleServer"
    by blast
  from tampered_fails t spam_verifies_integrity unworked s show ?thesis by blast
qed

text \<open>Sending the example packet to the server without mail gives the example server.\<close>

lemma send_example:
  "handleSendMail exampleRuntime emptyServer examplePacket
     = (exampleServer, Delivered ''00112233445566778899aabbccddeeff'' False False)"
proof -
  have accepted: "processPacket exampleRuntime exampleProtocol examplePacket None
                    = Success examplePacket"
    using example_verifies example_has_worked
    by (simp add: processPacket_def Let_def) (simp add: examplePacket_def)
  have addressed: "recipient examplePacket = ''(b)%(x.com)''"
    by (simp add: examplePacket_def)
  show ?thesis
    by (simp add: handleSendMail_def emptyServer_def exampleServer_def accepted Let_def
          addressed inheritedNames_def)
       (simp add: examplePacket_def)
qed

section \<open>Server: retrieval\<close>













section \<open>Server: CHECK\<close>

text \<open>Every answer of \<^verbatim>\<open>handleCheckMail\<close> comes with the server it was given.\<close>

lemma handleCheckMail_same_server:
  "handleCheckMail srv addr filters = Inr (srv', r) \<Longrightarrow> srv' = srv"
  by (auto simp: handleCheckMail_def Let_def split: if_splits sum.splits)

text \<open>Counting stays within the function's own tables when the tags of the queued packets
  are plain.\<close>

lemma countTags_plain:
  "list_all (\<lambda>tag. tag \<notin> set inheritedNames) tagList
     \<Longrightarrow> \<exists>counted. countTags category perTag tagList = Inr counted"
  by (induction tagList arbitrary: perTag) (auto split: option.splits)

lemma countCategories_plain:
  "list_all (\<lambda>entry. fst entry \<notin> set inheritedNames
               \<and> list_all (\<lambda>tag. tag \<notin> set inheritedNames) (snd entry)) mtags
     \<Longrightarrow> \<exists>counted. countCategories counts mtags = Inr counted"
proof (induction mtags arbitrary: counts)
  case Nil
  show ?case by simp
next
  case (Cons entry mtags)
  obtain category tagList where entry: "entry = (category, tagList)" by (cases entry)
  from Cons.prems entry have plain: "category \<notin> set inheritedNames"
    and tagsPlain: "list_all (\<lambda>tag. tag \<notin> set inheritedNames) tagList"
    and rest: "list_all (\<lambda>entry. fst entry \<notin> set inheritedNames
               \<and> list_all (\<lambda>tag. tag \<notin> set inheritedNames) (snd entry)) mtags"
    by simp_all
  show ?case
  proof (cases "map_of counts category")
    case None
    from countTags_plain [OF tagsPlain, of category "[]"]
    obtain counted where "countTags category [] tagList = Inr counted" by blast
    with None plain Cons.IH [OF rest] show ?thesis unfolding entry by simp
  next
    case (Some perTag)
    from countTags_plain [OF tagsPlain, of category perTag]
    obtain counted where "countTags category perTag tagList = Inr counted" by blast
    with Some Cons.IH [OF rest] show ?thesis unfolding entry by simp
  qed
qed

lemma countMessages_plain:
  "list_all plainTags msgs \<Longrightarrow> \<exists>counted. countMessages counts msgs = Inr counted"
proof (induction msgs arbitrary: counts)
  case Nil
  show ?case by simp
next
  case (Cons m msgs)
  show ?case
  proof (cases "tags (meta m)")
    case None
    with Cons show ?thesis by simp
  next
    case (Some mtags)
    with Cons.prems have "list_all (\<lambda>entry. fst entry \<notin> set inheritedNames
               \<and> list_all (\<lambda>tag. tag \<notin> set inheritedNames) (snd entry)) mtags"
      by (simp add: plainTags_def)
    from countCategories_plain [OF this, of counts]
    obtain counted where "countCategories counts mtags = Inr counted" by blast
    with Some Cons show ?thesis by simp
  qed
qed

text \<open>Without filters such a mailbox is counted, and the server is returned as it was.\<close>

lemma handleCheckMail_plain:
  assumes "case mailboxes srv addr of None \<Rightarrow> True | Some box \<Rightarrow> list_all plainTags box"
  shows "\<exists>r. handleCheckMail srv addr None = Inr (srv, r)"
proof (cases "mailboxes srv addr")
  case None
  then show ?thesis by (simp add: handleCheckMail_def)
next
  case (Some box)
  with assms have "list_all plainTags box" by simp
  from countMessages_plain [OF this, of "[]"]
  obtain counted where "countMessagesByTags box = Inr counted"
    by (auto simp: countMessagesByTags_def)
  with Some show ?thesis by (simp add: handleCheckMail_def)
qed

lemma check_example:
  "handleCheckMail mixedServer ''(b)%(x.com)'' (Some [(''category'', [''promotion'', ''coupon''])])
     = Inr (mixedServer, Counts 1 2 [(''category'', [(''promotion'', 1)])])"
  by (simp add: handleCheckMail_def validate_b mixedServer_def Let_def countMessagesByTags_def
        filterMessagesByTags_def examplePacket_def taggedPacket_def setProperty_def
        inheritedNames_def isArrayIndex_def isDigit_def)

text \<open>
  The tag set \<^verbatim>\<open>{constructor: ["keys"]}\<close> passes \<^verbatim>\<open>processTags\<close>, and the SEND handler stores
  a packet that carries it: tags are not part of the integrity hash, and the handler does
  not look at them.
\<close>

lemma processTags_inherited_category:
  "processTags exampleProtocol (Some (TagObject [(''constructor'', [''keys''])]))
     = [(''constructor'', [''keys''])]"
  by (simp add: exampleProtocol_def defaultTagCategories_def inheritedNames_def
        setProperty_def isArrayIndex_def isDigit_def)

lemma send_polluting:
  "handleSendMail exampleRuntime emptyServer pollutingPacket
     = (pollutedServer, Delivered ''fedcba9876543210fedcba9876543210'' False False)"
proof -
  have verifies: "verifyMessageIntegrity exampleRuntime pollutingPacket"
    using example_content_digest
    by (simp add: verifyMessageIntegrity_def generateSHA256_def examplePacket_def
          pollutingPacket_def)
  have worked: "verifyHashCash exampleRuntime exampleProtocol pollutingPacket"
    by (simp add: verifyHashCash_def generateSHA256_def startsWith_zeros pollutingPacket_def
          examplePacket_def example_defs)
  have accepted: "processPacket exampleRuntime exampleProtocol pollutingPacket None
                    = Success pollutingPacket"
    using verifies worked
    by (simp add: processPacket_def Let_def) (simp add: pollutingPacket_def examplePacket_def)
  have addressed: "recipient pollutingPacket = ''(b)%(x.com)''"
    by (simp add: pollutingPacket_def examplePacket_def)
  show ?thesis
    by (simp add: handleSendMail_def emptyServer_def pollutedServer_def accepted Let_def
          addressed inheritedNames_def)
       (simp add: pollutingPacket_def examplePacket_def)
qed

text \<open>
  Claim C8 does not hold of the program.  The mailbox of \<^verbatim>\<open>(b)%(x.com)\<close> holds one packet
  tagged \<^verbatim>\<open>{constructor: ["keys"]}\<close>.  In \<^verbatim>\<open>countMessagesByTags\<close>, \<^verbatim>\<open>counts["constructor"]\<close>
  is the function every object inherits under that name, so no table is created and the
  count is assigned to the property \<^verbatim>\<open>keys\<close> of that function: a CHECK request writes to a
  built-in object of the process.
\<close>

theorem handleCheckMail_assigns_to_builtin:
  "handleCheckMail pollutedServer ''(b)%(x.com)'' None
     = Inl (AssignsToBuiltin ''constructor'' ''keys'')"
  by (simp add: handleCheckMail_def validate_b pollutedServer_def Let_def countMessagesByTags_def
        pollutingPacket_def examplePacket_def inheritedNames_def)

section \<open>Tag filters\<close>

text \<open>For filter categories that are not inherited names the loop decides whether the
  message shares a tag with every category of the filter.\<close>

lemma matchesFilters_plain:
  "list_all (\<lambda>entry. fst entry \<notin> set inheritedNames) filters \<Longrightarrow>
   matchesFilters mtags filters
     = Inr (\<forall>(category, filterTags) \<in> set filters.
              \<exists>tag \<in> set filterTags.
                tag \<in> set (case map_of mtags category of None \<Rightarrow> [] | Some l \<Rightarrow> l))"
proof (induction filters)
  case Nil
  show ?case by simp
next
  case (Cons entry filters)
  obtain category filterTags where entry: "entry = (category, filterTags)"
    by (cases entry)
  from Cons.prems entry have plain: "category \<notin> set inheritedNames"
    and rest: "list_all (\<lambda>entry. fst entry \<notin> set inheritedNames) filters"
    by simp_all
  define mt where "mt = (case map_of mtags category of None \<Rightarrow> [] | Some l \<Rightarrow> l)"
  have step: "matchesFilters mtags ((category, filterTags) # filters)
                = (if \<exists>tag \<in> set filterTags. tag \<in> set mt then matchesFilters mtags filters
                   else Inr False)"
    using plain unfolding mt_def
    by (cases "map_of mtags category") (auto simp: list_ex_iff Let_def)
  show ?case
    unfolding entry step using Cons.IH [OF rest] by (simp add: mt_def)
qed

lemma filterMessages_plain:
  assumes "list_all (\<lambda>entry. fst entry \<notin> set inheritedNames) filters" and "filters \<noteq> []"
  shows "filterMessages filters msgs
           = Inr (filter (\<lambda>m. \<forall>(category, filterTags) \<in> set filters.
                           \<exists>tag \<in> set filterTags. tag \<in> set (messageTagsIn m category)) msgs)"
proof -
  from assms(2) obtain category filterTags where first: "(category, filterTags) \<in> set filters"
    by (cases filters) auto
  have keep: "(case tags (meta x) of
                 None \<Rightarrow> Inr False
               | Some mtags \<Rightarrow> if mtags = [] then Inr False else matchesFilters mtags filters)
              = Inr (\<forall>(category, filterTags) \<in> set filters.
                   \<exists>tag \<in> set filterTags. tag \<in> set (messageTagsIn x category))" for x
  proof (cases "tags (meta x)")
    case None
    with first show ?thesis by (auto simp: messageTagsIn_def)
  next
    case (Some mtags)
    show ?thesis
    proof (cases "mtags = []")
      case True
      with Some first show ?thesis by (auto simp: messageTagsIn_def)
    next
      case False
      with Some show ?thesis by (simp add: matchesFilters_plain [OF assms(1)] messageTagsIn_def)
    qed
  qed
  show ?thesis
    by (induction msgs) (simp_all add: keep)
qed

text \<open>
  For filters whose categories are not inherited names: a filter with at least one
  category keeps, in order, exactly the messages that have, for every
  category of the filter, at least one of that category's filter values among their own
  tags of that category; a message with no tags is never kept by such a filter; an absent
  filter and a filter without categories return the list unchanged.
\<close>

lemma filterMessagesByTags_plain_categories:
  assumes "list_all (\<lambda>entry. fst entry \<notin> set inheritedNames) filters"
  shows "filters \<noteq> [] \<longrightarrow>
      filterMessagesByTags msgs (Some filters)
        = Inr (filter (\<lambda>m. \<forall>(category, filterTags) \<in> set filters.
                         \<exists>tag \<in> set filterTags. tag \<in> set (messageTagsIn m category)) msgs)"
    and "filters \<noteq> [] \<and> (tags (meta m) = None \<or> tags (meta m) = Some []) \<longrightarrow>
        (\<exists>kept. filterMessagesByTags msgs (Some filters) = Inr kept \<and> m \<notin> set kept)"
    and "filterMessagesByTags msgs None = Inr msgs"
    and "filterMessagesByTags msgs (Some []) = Inr msgs"
proof -
  show "filterMessagesByTags msgs None = Inr msgs" "filterMessagesByTags msgs (Some []) = Inr msgs"
    by (simp_all add: filterMessagesByTags_def)
  show kept: "filters \<noteq> [] \<longrightarrow>
      filterMessagesByTags msgs (Some filters)
        = Inr (filter (\<lambda>m. \<forall>(category, filterTags) \<in> set filters.
                         \<exists>tag \<in> set filterTags. tag \<in> set (messageTagsIn m category)) msgs)"
    using filterMessages_plain [OF assms] by (simp add: filterMessagesByTags_def)
  show "filters \<noteq> [] \<and> (tags (meta m) = None \<or> tags (meta m) = Some []) \<longrightarrow>
        (\<exists>kept. filterMessagesByTags msgs (Some filters) = Inr kept \<and> m \<notin> set kept)"
  proof
    assume untagged: "filters \<noteq> [] \<and> (tags (meta m) = None \<or> tags (meta m) = Some [])"
    then obtain category filterTags rest where "filters = (category, filterTags) # rest"
      by (cases filters) auto
    with untagged have "\<not> (\<forall>(category, filterTags) \<in> set filters.
                         \<exists>tag \<in> set filterTags. tag \<in> set (messageTagsIn m category))"
      by (auto simp: messageTagsIn_def)
    with kept untagged show "\<exists>kept. filterMessagesByTags msgs (Some filters) = Inr kept
                               \<and> m \<notin> set kept"
      by simp
  qed
qed

text \<open>A message tagged \<^verbatim>\<open>{category: ["promotion"]}\<close> matches the filter
  \<^verbatim>\<open>{category: ["promotion", "coupon"]}\<close>; the untagged message does not.\<close>

lemma filterMessagesByTags_example:
  "filterMessagesByTags [examplePacket, taggedPacket]
     (Some [(''category'', [''promotion'', ''coupon''])]) = Inr [taggedPacket]"
  by (simp add: filterMessagesByTags_def examplePacket_def taggedPacket_def)

text \<open>
  Claim C7 does not hold of the program.  The message tagged \<^verbatim>\<open>{category: ["promotion"]}\<close>
  has no tag in the category \<^verbatim>\<open>constructor\<close>, so by the claim the filter
  \<^verbatim>\<open>{constructor: ["x"]}\<close> does not match it and the result is the empty list.  In the
  program \<^verbatim>\<open>message.meta.tags["constructor"]\<close> is the function every object inherits under
  that name; it is not replaced by the empty list, it has no \<^verbatim>\<open>includes\<close>, and
  \<^verbatim>\<open>filterMessagesByTags\<close> throws a \<^verbatim>\<open>TypeError\<close>.
\<close>

theorem filterMessagesByTags_inherited_category_throws:
  "messageTagsIn taggedPacket ''constructor'' = []
   \<and> filterMessagesByTags [taggedPacket] (Some [(''constructor'', [''x''])])
       = Inl ''messageTags.includes is not a function''"
  by (simp add: filterMessagesByTags_def messageTagsIn_def taggedPacket_def examplePacket_def
        inheritedNames_def inheritedLength_def)

text \<open>On the server the exception ends the RECEIVE_FILTERED and the CHECK request with the
  frame of the connection's \<^verbatim>\<open>catch\<close>; the mailbox is kept.\<close>

lemma handleReceiveFilteredMail_inherited_category:
  "handleReceiveFilteredMail exampleRuntime mixedServer ''(b)%(x.com)''
     (Some [(''constructor'', [''x''])])
   = (mixedServer, ErrorResponse ''Invalid request format. Must be valid JSON.'')"
proof -
  have thrown: "filterMessagesByTags [examplePacket, taggedPacket]
                  (Some [(''constructor'', [''x''])])
                = Inl ''messageTags.includes is not a function''"
    by (simp add: filterMessagesByTags_def taggedPacket_def examplePacket_def
          inheritedNames_def inheritedLength_def)
  have queued: "mailboxes mixedServer ''(b)%(x.com)'' = Some [examplePacket, taggedPacket]"
    by (simp add: mixedServer_def)
  have opened: "openMailbox exampleRuntime mixedServer ''(b)%(x.com)''
                  [examplePacket, taggedPacket] = [examplePacket, taggedPacket]"
    by (simp add: openMailbox_def mixedServer_def)
  have kept: "mixedServer\<lparr>mailboxes := (mailboxes mixedServer)
                  (''(b)%(x.com)'' \<mapsto> [examplePacket, taggedPacket])\<rparr> = mixedServer"
    by (simp add: mixedServer_def)
  show ?thesis
    by (simp add: handleReceiveFilteredMail_def validate_b queued opened thrown kept Let_def)
qed

section \<open>Client: responses\<close>


text \<open>The table that \<^verbatim>\<open>Map.set\<close> builds has one entry per action, and setting never moves
  the first entry's action.\<close>

lemma mapSet_keys: "fst ` set (mapSet kvs k v) = insert k (fst ` set kvs)"
proof (induction kvs)
  case Nil
  show ?case by simp
next
  case (Cons kv kvs)
  obtain k' v' where kv: "kv = (k', v')" by (cases kv)
  show ?case
  proof (cases "k' = k")
    case True
    then show ?thesis unfolding kv by simp
  next
    case False
    with Cons show ?thesis unfolding kv by (simp add: insert_commute)
  qed
qed

lemma mapSet_distinct: "distinct (map fst kvs) \<Longrightarrow> distinct (map fst (mapSet kvs k v))"
proof (induction kvs)
  case Nil
  show ?case by simp
next
  case (Cons kv kvs)
  obtain k' v' where kv: "kv = (k', v')" by (cases kv)
  show ?case
  proof (cases "k' = k")
    case True
    with Cons.prems show ?thesis unfolding kv by simp
  next
    case False
    with Cons show ?thesis unfolding kv by (simp add: mapSet_keys)
  qed
qed

lemma track_distinct:
  "distinct (map fst (waitingResponses c))
     \<Longrightarrow> distinct (map fst (waitingResponses (track action tr c)))"
  by (simp add: track_def mapSet_distinct)

lemma mapSet_first_key: "kvs \<noteq> [] \<Longrightarrow> fst (hd (mapSet kvs k v)) = fst (hd kvs)"
  by (cases kvs) auto




end
